theory Spec2Isabelle
  imports Complex_Main "HOL-Library.Word" "HOL-Library.Sublist"
begin

section \<open>The libunbound binding of node_unbound.cc\<close>

text \<open>
  The binding is a thin adapter between a JavaScript caller and the libunbound resolver
  engine. Its own code checks arguments, calls the engine, translates the engine's status
  into an exception or an error message and hands one blocking resolve call to a worker.
  The engine is external: it appears here as a record of functions (\<open>externs\<close>) that say
  what each engine call returns, and every theorem holds for every such record. What the
  binding does to the outside (engine calls, allocation and release, callback calls) is
  recorded, in order, in a trace of events.

  Conventions. A C \<open>int\<close> is a 32-bit word. A C string is the list of its characters
  before the terminating NUL, and a \<open>char *\<close> that may be NULL is a \<open>string option\<close>.
  A JavaScript string is represented by its UTF-8 encoding.
\<close>

subsection \<open>Values\<close>

type_synonym c_int = "32 word"
type_synonym byte = "8 word"

text \<open>The address of a \<open>struct ub_ctx\<close>; a pointer that may be NULL is an option.\<close>

type_synonym ub_ctx = nat

text \<open>
  JavaScript values as far as the binding looks at them. A number is a double: a finite
  one is given by its (rational) value, the others are NaN and the two infinities.
\<close>

datatype js_value =
    JsUndefined
  | JsNull
  | JsBoolean bool
  | JsNumber rat
  | JsNaN
  | JsInfinity bool
  | JsString string
  | JsFunction nat
  | JsObject nat
  | JsBuffer "byte list"
  | JsArray "js_value list"
  | JsError string
  | JsTypeError string

text \<open>
  The outcome of a method of the binding: it returns a value, or it throws
  (\<open>Nan::ThrowError\<close> throws an \<open>Error\<close>, \<open>Nan::ThrowTypeError\<close> a \<open>TypeError\<close>).
\<close>

datatype js_result = Returns js_value | Throws js_value

text \<open>\<open>struct ub_result\<close> of unbound.h, with the fields the binding reads.\<close>

record ub_result =
  answer_packet :: "byte list"
  answer_len :: c_int
  secure :: c_int
  bogus :: c_int
  why_bogus :: "string option"

text \<open>
  \<open>answer_packet\<close> is the memory readable at that pointer; \<open>answer_len\<close> is the length
  the engine reports for it.
\<close>

text \<open>What is passed to a deallocation routine.\<close>

datatype pointer = CharPtr string | ResultPtr ub_result

subsection \<open>The engine and the C library\<close>

text \<open>
  Every function the binding calls outside itself. \<open>out_of_memory\<close> says whether the
  allocation inside \<open>strdup\<close> fails. A function that writes through an out parameter
  returns the written value beside its status.
\<close>

record externs =
  out_of_memory :: bool
  ub_strerror :: "c_int \<Rightarrow> string option"
  ub_ctx_create :: "ub_ctx option"
  ub_ctx_debugout :: "ub_ctx \<Rightarrow> c_int"
  ub_ctx_debuglevel :: "ub_ctx \<Rightarrow> c_int \<Rightarrow> c_int"
  ub_ctx_get_option :: "ub_ctx option \<Rightarrow> string \<Rightarrow> c_int \<times> string option"
  ub_ctx_add_ta_autr :: "ub_ctx option \<Rightarrow> string \<Rightarrow> c_int"
  ub_ctx_add_ta_file :: "ub_ctx option \<Rightarrow> string \<Rightarrow> c_int"
  ub_resolve ::
    "ub_ctx option \<Rightarrow> string option \<Rightarrow> c_int \<Rightarrow> c_int \<Rightarrow> c_int \<times> ub_result option"

subsection \<open>Error strings\<close>

text \<open>
  \<open>nu_strerror\<close>: the engine's string for a status, replaced by \<open>unknown error\<close> when
  the engine has none or when it is longer than 256 characters, after the prefix
  \<open>libunbound: \<close>. The static buffer of 12 + 256 + 1 bytes holds every such message.
\<close>

definition nu_strerror :: "externs \<Rightarrow> c_int \<Rightarrow> string" where
  "nu_strerror ext err =
     (let msg = (case ub_strerror ext err of None \<Rightarrow> ''unknown error'' | Some m \<Rightarrow> m);
          msg = (if length msg > 256 then ''unknown error'' else msg)
      in ''libunbound: '' @ msg)"

subsection \<open>Inspecting and converting JavaScript values\<close>

text \<open>
  \<open>info[i]\<close>: the \<open>i\<close>-th argument of the call, and \<open>undefined\<close> when the call has
  no such argument.
\<close>

definition info_at :: "js_value list \<Rightarrow> nat \<Rightarrow> js_value" where
  "info_at args i = (if i < length args then args ! i else JsUndefined)"

fun IsString :: "js_value \<Rightarrow> bool" where
  "IsString (JsString s) = True"
| "IsString _ = False"

fun IsNumber :: "js_value \<Rightarrow> bool" where
  "IsNumber (JsNumber x) = True"
| "IsNumber JsNaN = True"
| "IsNumber (JsInfinity b) = True"
| "IsNumber _ = False"

fun IsBoolean :: "js_value \<Rightarrow> bool" where
  "IsBoolean (JsBoolean b) = True"
| "IsBoolean _ = False"

fun IsFunction :: "js_value \<Rightarrow> bool" where
  "IsFunction (JsFunction f) = True"
| "IsFunction _ = False"

text \<open>\<open>Nan::To<bool>\<close>: the ToBoolean conversion of the language.\<close>

fun BooleanValue :: "js_value \<Rightarrow> bool" where
  "BooleanValue JsUndefined = False"
| "BooleanValue JsNull = False"
| "BooleanValue (JsBoolean b) = b"
| "BooleanValue (JsNumber x) = (x \<noteq> 0)"
| "BooleanValue JsNaN = False"
| "BooleanValue (JsString s) = (s \<noteq> [])"
| "BooleanValue _ = True"

text \<open>
  \<open>Nan::To<uint32_t>\<close> of a number: truncate towards zero, then reduce modulo \<open>2 ^ 32\<close>;
  NaN and the infinities give 0. The binding applies it only to a value that has passed
  \<open>IsNumber\<close>; the conversion of other values is not modelled.
\<close>

fun Uint32Value :: "js_value \<Rightarrow> 32 word" where
  "Uint32Value (JsNumber x) = word_of_int (if 0 \<le> x then \<lfloor>x\<rfloor> else \<lceil>x\<rceil>)"
| "Uint32Value JsNaN = 0"
| "Uint32Value (JsInfinity b) = 0"

text \<open>
  \<open>Nan::Utf8String\<close> of a string value. The binding applies it only to a value that
  has passed \<open>IsString\<close>; the conversion of other values is not modelled.
\<close>

fun Utf8String :: "js_value \<Rightarrow> string" where
  "Utf8String (JsString s) = s"

text \<open>
  The contents of a \<open>Utf8String\<close> read as a C string through \<open>const char *\<close>: the
  characters before the first NUL.
\<close>

definition c_str :: "string \<Rightarrow> string" where
  "c_str s = takeWhile (\<lambda>c. c \<noteq> CHR 0x00) s"

text \<open>\<open>strdup\<close>: a copy of the string, or NULL when the allocation fails.\<close>

definition strdup :: "externs \<Rightarrow> string \<Rightarrow> string option" where
  "strdup ext s = (if out_of_memory ext then None else Some s)"

subsection \<open>The context handle\<close>

record NodeUnbound =
  ctx :: "ub_ctx option"

subsection \<open>The worker\<close>

text \<open>
  \<open>NodeUnboundWorker\<close>, with the two members of its base class \<open>Nan::AsyncWorker\<close>
  that the binding uses: the callback and the error message (\<open>errmsg\<close>, NULL until
  \<open>SetErrorMessage\<close> stores a copy of a message). \<open>persistent\<close> is what
  \<open>SaveToPersistent\<close> has stored.
\<close>

record NodeUnboundWorker =
  callback :: "js_value option"
  errmsg :: "string option"
  persistent :: "(string \<times> js_value) list"
  wctx :: "ub_ctx option"
  name :: "string option"
  rrtype :: c_int
  rrclass :: c_int
  result :: "ub_result option"

subsection \<open>Events\<close>

text \<open>
  One event for each call the binding makes outside itself. \<open>Call_free\<close> is the generic
  \<open>free\<close> of the C library, \<open>Call_ub_resolve_free\<close> the engine's own routine for a
  result structure.
\<close>

datatype event =
    Call_ub_ctx_create
  | Call_ub_ctx_debugout ub_ctx
  | Call_ub_ctx_debuglevel ub_ctx c_int
  | Call_ub_ctx_delete ub_ctx
  | Call_ub_ctx_get_option "ub_ctx option" string
  | Call_ub_ctx_add_ta_autr "ub_ctx option" string
  | Call_ub_ctx_add_ta_file "ub_ctx option" string
  | Call_ub_resolve "ub_ctx option" "string option" c_int c_int
  | Call_ub_resolve_free ub_result
  | Call_strdup string
  | Call_free pointer
  | Call_AsyncQueueWorker NodeUnboundWorker
  | Call_callback "js_value option" "js_value list"

text \<open>What stops the process instead of returning.\<close>

datatype fault = AssertionFailed | OutOfBoundsRead

subsection \<open>Construction and destruction of the handle\<close>

text \<open>\<open>NodeUnbound::NodeUnbound\<close>.\<close>

definition NodeUnbound_ctor :: NodeUnbound where
  "NodeUnbound_ctor = \<lparr>ctx = None\<rparr>"

text \<open>\<open>NodeUnbound::~NodeUnbound\<close>: the object as the destructor leaves it, and the trace.\<close>

definition NodeUnbound_dtor :: "NodeUnbound \<Rightarrow> event list \<Rightarrow> NodeUnbound \<times> event list" where
  "NodeUnbound_dtor ub tr =
     (case ctx ub of
        Some c \<Rightarrow> (ub\<lparr>ctx := None\<rparr>, tr @ [Call_ub_ctx_delete c])
      | None \<Rightarrow> (ub, tr))"

text \<open>
  \<open>NodeUnbound::New\<close>. The second component is the object that \<open>Wrap\<close> has tied to
  \<open>this\<close> (none when the call was not a construct call): it is owned by \<open>this\<close>, and
  no statement of \<open>New\<close> destroys it.
\<close>

definition New ::
  "externs \<Rightarrow> bool \<Rightarrow> js_value \<Rightarrow> event list \<Rightarrow> js_result \<times> NodeUnbound option \<times> event list"
where
  "New ext is_construct_call this tr =
     (if \<not> is_construct_call
      then (Throws (JsError ''Could not create Unbound instance.''), None, tr)
      else
        let ub = NodeUnbound_ctor;
            ub = ub\<lparr>ctx := ub_ctx_create ext\<rparr>;
            tr = tr @ [Call_ub_ctx_create]
        in case ctx ub of
             None \<Rightarrow> (Throws (JsError ''Could not create Unbound instance.''), Some ub, tr)
           | Some c \<Rightarrow>
               let err = ub_ctx_debugout ext c;
                   tr = tr @ [Call_ub_ctx_debugout c]
               in if err \<noteq> 0 then (Throws (JsError (nu_strerror ext err)), Some ub, tr)
                  else
                    let err = ub_ctx_debuglevel ext c 0;
                        tr = tr @ [Call_ub_ctx_debuglevel c 0]
                    in if err \<noteq> 0 then (Throws (JsError (nu_strerror ext err)), Some ub, tr)
                       else (Returns this, Some ub, tr))"

subsection \<open>Configuration methods\<close>

text \<open>\<open>NodeUnbound::GetOption\<close>.\<close>

definition GetOption ::
  "externs \<Rightarrow> NodeUnbound \<Rightarrow> js_value list \<Rightarrow> event list \<Rightarrow> js_result \<times> event list"
where
  "GetOption ext ub args tr =
     (if length args \<noteq> 1
      then (Throws (JsError ''unbound.getOption() requires arguments.''), tr)
      else if \<not> IsString (info_at args 0)
      then (Throws (JsTypeError ''First argument must be a string.''), tr)
      else
        let opt = c_str (Utf8String (info_at args 0));
            (err, val) = ub_ctx_get_option ext (ctx ub) opt;
            tr = tr @ [Call_ub_ctx_get_option (ctx ub) opt]
        in if err \<noteq> 0 then (Throws (JsError (nu_strerror ext err)), tr)
           else case val of
                  None \<Rightarrow> (Returns JsNull, tr)
                | Some v \<Rightarrow> (Returns (JsString v), tr @ [Call_free (CharPtr v)]))"

text \<open>
  \<open>NodeUnbound::AddTrustAnchorFile\<close>. The flag is read from \<open>info[2]\<close>, as the source
  has it.
\<close>

definition AddTrustAnchorFile ::
  "externs \<Rightarrow> NodeUnbound \<Rightarrow> js_value \<Rightarrow> js_value list \<Rightarrow> event list \<Rightarrow> js_result \<times> event list"
where
  "AddTrustAnchorFile ext ub this args tr =
     (if length args \<noteq> 2
      then (Throws (JsError ''unbound.addTrustAnchorFile() requires arguments.''), tr)
      else if \<not> IsString (info_at args 0)
      then (Throws (JsTypeError ''First argument must be a string.''), tr)
      else if \<not> IsBoolean (info_at args 1)
      then (Throws (JsTypeError ''Second argument must be a boolean.''), tr)
      else
        let fname = c_str (Utf8String (info_at args 0));
            autr = BooleanValue (info_at args 2);
            (err, tr) =
              (if autr
               then (ub_ctx_add_ta_autr ext (ctx ub) fname,
                     tr @ [Call_ub_ctx_add_ta_autr (ctx ub) fname])
               else (ub_ctx_add_ta_file ext (ctx ub) fname,
                     tr @ [Call_ub_ctx_add_ta_file (ctx ub) fname]))
        in if err \<noteq> 0 then (Throws (JsError (nu_strerror ext err)), tr)
           else (Returns this, tr))"

subsection \<open>The worker's own methods\<close>

text \<open>The constructor of \<open>NodeUnboundWorker\<close>: no result and no error message yet.\<close>

definition NodeUnboundWorker_ctor ::
  "ub_ctx option \<Rightarrow> string option \<Rightarrow> c_int \<Rightarrow> c_int \<Rightarrow> js_value \<Rightarrow> NodeUnboundWorker"
where
  "NodeUnboundWorker_ctor c n t k cb =
     \<lparr>callback = Some cb, errmsg = None, persistent = [],
      wctx = c, name = n, rrtype = t, rrclass = k, result = None\<rparr>"

text \<open>\<open>NodeUnboundWorker::~NodeUnboundWorker\<close>.\<close>

definition NodeUnboundWorker_dtor ::
  "NodeUnboundWorker \<Rightarrow> event list \<Rightarrow> NodeUnboundWorker \<times> event list"
where
  "NodeUnboundWorker_dtor w tr =
     (let (w, tr) =
            (case name w of
               Some n \<Rightarrow> (w\<lparr>name := None\<rparr>, tr @ [Call_free (CharPtr n)])
             | None \<Rightarrow> (w, tr));
          (w, tr) =
            (case result w of
               Some r \<Rightarrow> (w\<lparr>result := None\<rparr>, tr @ [Call_ub_resolve_free r])
             | None \<Rightarrow> (w, tr))
      in (w, tr))"

text \<open>
  Modelled from the spec: \<open>SetErrorMessage\<close> of \<open>Nan::AsyncWorker\<close> (nan.h is not among
  the sources). The task records the failure: the worker keeps a copy of the message.
\<close>

definition SetErrorMessage :: "string \<Rightarrow> NodeUnboundWorker \<Rightarrow> NodeUnboundWorker" where
  "SetErrorMessage msg w = w\<lparr>errmsg := Some msg\<rparr>"

text \<open>
  \<open>NodeUnboundWorker::Execute\<close>: the blocking call, which writes the worker's \<open>result\<close>
  through its out parameter, and the error message when the status is not zero.
\<close>

definition Execute ::
  "externs \<Rightarrow> NodeUnboundWorker \<Rightarrow> event list \<Rightarrow> NodeUnboundWorker \<times> event list"
where
  "Execute ext w tr =
     (let (err, res) = ub_resolve ext (wctx w) (name w) (rrtype w) (rrclass w);
          tr = tr @ [Call_ub_resolve (wctx w) (name w) (rrtype w) (rrclass w)];
          w = w\<lparr>result := res\<rparr>
      in if err \<noteq> 0 then (SetErrorMessage (nu_strerror ext err) w, tr) else (w, tr))"

text \<open>
  \<open>Nan::CopyBuffer\<close>: a new buffer holding the first \<open>size\<close> bytes of the memory at
  \<open>data\<close>. A size that is negative as an \<open>int\<close> (huge as a \<open>size_t\<close>) or beyond the
  readable memory reads out of bounds.
\<close>

definition CopyBuffer :: "byte list \<Rightarrow> int \<Rightarrow> fault + js_value" where
  "CopyBuffer data sz =
     (if 0 \<le> sz \<and> sz \<le> int (length data)
      then Inr (JsBuffer (take (nat sz) data))
      else Inl OutOfBoundsRead)"

text \<open>
  \<open>NodeUnboundWorker::HandleOKCallback\<close>: the answer array, the release of the engine's
  result, then the callback with \<open>(null, answer)\<close>.
\<close>

definition HandleOKCallback ::
  "NodeUnboundWorker \<Rightarrow> event list \<Rightarrow> fault + NodeUnboundWorker \<times> event list"
where
  "HandleOKCallback w tr =
     (case result w of
        None \<Rightarrow> Inl AssertionFailed
      | Some r \<Rightarrow>
          let pkt = answer_packet r;
              pkt_len = sint (answer_len r)
          in (case CopyBuffer pkt pkt_len of
               Inl f \<Rightarrow> Inl f
             | Inr buf \<Rightarrow>
                 let ret = JsArray
                       [buf,
                        JsBoolean (secure r \<noteq> 0),
                        JsBoolean (bogus r \<noteq> 0),
                        (if bogus r \<noteq> 0 \<and> why_bogus r \<noteq> None
                         then JsString (the (why_bogus r))
                         else JsNull)];
                     tr = tr @ [Call_ub_resolve_free r];
                     w = w\<lparr>result := None\<rparr>;
                     argv = [JsNull, ret]
                 in Inr (w, tr @ [Call_callback (callback w) argv])))"

subsection \<open>The life of a task\<close>

text \<open>
  Modelled from the spec: \<open>HandleErrorCallback\<close> of \<open>Nan::AsyncWorker\<close> (nan.h is not
  among the sources). A failure is delivered once to the caller, carrying the recorded
  message \<open>msg\<close> and no further fields.
\<close>

definition HandleErrorCallback ::
  "string \<Rightarrow> NodeUnboundWorker \<Rightarrow> event list \<Rightarrow> event list"
where
  "HandleErrorCallback msg w tr = tr @ [Call_callback (callback w) [JsError msg]]"

text \<open>
  Modelled from the spec: \<open>WorkComplete\<close> of \<open>Nan::AsyncWorker\<close> (nan.h is not among the
  sources). One completion is delivered: the answer when no failure has been recorded,
  the failure otherwise; the callback is dropped after it.
\<close>

definition WorkComplete ::
  "NodeUnboundWorker \<Rightarrow> event list \<Rightarrow> fault + NodeUnboundWorker \<times> event list"
where
  "WorkComplete w tr =
     (case errmsg w of
        None \<Rightarrow>
          (case HandleOKCallback w tr of
             Inl f \<Rightarrow> Inl f
           | Inr (w, tr) \<Rightarrow> Inr (w\<lparr>callback := None\<rparr>, tr))
      | Some msg \<Rightarrow> Inr (w\<lparr>callback := None\<rparr>, HandleErrorCallback msg w tr))"

text \<open>
  Modelled from the spec: the bridge that runs a queued worker (\<open>Nan::AsyncQueueWorker\<close>
  and the work queue behind it are not among the sources). The task goes from created
  to running to completed or failed, to delivered, to released: \<open>Execute\<close> runs once,
  then one completion is delivered, then the worker is destroyed.
\<close>

definition run_worker ::
  "externs \<Rightarrow> NodeUnboundWorker \<Rightarrow> event list \<Rightarrow> fault + NodeUnboundWorker \<times> event list"
where
  "run_worker ext w tr =
     (let (w, tr) = Execute ext w tr
      in case WorkComplete w tr of
           Inl f \<Rightarrow> Inl f
         | Inr (w, tr) \<Rightarrow> Inr (NodeUnboundWorker_dtor w tr))"

subsection \<open>Submission\<close>

text \<open>
  \<open>NodeUnbound::Resolve\<close>: the checks of the four arguments, the copy of the name, the
  worker, and its hand-over to the queue.
\<close>

definition Resolve ::
  "externs \<Rightarrow> NodeUnbound \<Rightarrow> js_value \<Rightarrow> js_value list \<Rightarrow> event list \<Rightarrow> js_result \<times> event list"
where
  "Resolve ext ub this args tr =
     (if length args \<noteq> 4
      then (Throws (JsError ''unbound.resolve() requires arguments.''), tr)
      else if \<not> IsString (info_at args 0)
      then (Throws (JsTypeError ''First argument must be a string.''), tr)
      else if \<not> IsNumber (info_at args 1)
      then (Throws (JsTypeError ''Second argument must be a number.''), tr)
      else if \<not> IsNumber (info_at args 2)
      then (Throws (JsTypeError ''Third argument must be a number.''), tr)
      else if \<not> IsFunction (info_at args 3)
      then (Throws (JsTypeError ''Fourth argument must be a function.''), tr)
      else
        let nm = c_str (Utf8String (info_at args 0));
            rrtype = Uint32Value (info_at args 1);
            rrclass = Uint32Value (info_at args 2);
            cb = info_at args 3;
            qname = strdup ext nm;
            tr = tr @ [Call_strdup nm]
        in case qname of
             None \<Rightarrow> (Throws (JsTypeError ''Could not allocate memory.''), tr)
           | Some q \<Rightarrow>
               let worker = NodeUnboundWorker_ctor (ctx ub) (Some q) rrtype rrclass cb;
                   worker = worker\<lparr>persistent := (''unbound'', this) # persistent worker\<rparr>
               in (Returns this, tr @ [Call_AsyncQueueWorker worker]))"

text \<open>
  The workers that a trace shows handed to the queue, and the run of a list of workers
  one after the other, each appending its calls to the trace.
\<close>

fun queued :: "event list \<Rightarrow> NodeUnboundWorker list" where
  "queued [] = []"
| "queued (Call_AsyncQueueWorker w # es) = w # queued es"
| "queued (e # es) = queued es"

fun run_all :: "externs \<Rightarrow> NodeUnboundWorker list \<Rightarrow> event list \<Rightarrow> fault + event list" where
  "run_all ext [] tr = Inr tr"
| "run_all ext (w # ws) tr =
     (case run_worker ext w tr of
        Inl f \<Rightarrow> Inl f
      | Inr (w', tr') \<Rightarrow> run_all ext ws tr')"

subsection \<open>Test doubles of the engine\<close>

text \<open>
  A fixed engine for concrete runs. It resolves every name but \<open>fail.test\<close> to a
  two-byte answer that is secure and not bogus, and fails on \<open>fail.test\<close> with status
  \<open>-3\<close> and no result; its option \<open>verbosity\<close> has the value \<open>1\<close>, its option
  \<open>module-config\<close> a NULL value, and it knows no other option; its error string for
  status \<open>-7\<close> has 257 characters.
\<close>

definition stub_result :: ub_result where
  "stub_result =
     \<lparr>answer_packet = [0x12, 0x34], answer_len = 2, secure = 1, bogus = 0,
      why_bogus = None\<rparr>"

definition stub_strerror :: "c_int \<Rightarrow> string option" where
  "stub_strerror err =
     (if err = - 7 then Some (replicate 257 (CHR ''a''))
      else if err = - 3 then Some ''syntax error''
      else None)"

definition stub_get_option :: "ub_ctx option \<Rightarrow> string \<Rightarrow> c_int \<times> string option" where
  "stub_get_option c opt =
     (if opt = ''verbosity'' then (0, Some ''1'')
      else if opt = ''module-config'' then (0, None)
      else (- 3, None))"

definition stub_resolve ::
  "ub_ctx option \<Rightarrow> string option \<Rightarrow> c_int \<Rightarrow> c_int \<Rightarrow> c_int \<times> ub_result option"
where
  "stub_resolve c n t k = (if n = Some ''fail.test'' then (- 3, None) else (0, Some stub_result))"

definition stub_externs :: externs where
  "stub_externs =
     \<lparr>out_of_memory = False,
      ub_strerror = stub_strerror,
      ub_ctx_create = Some 1,
      ub_ctx_debugout = (\<lambda>c. 0),
      ub_ctx_debuglevel = (\<lambda>c l. 0),
      ub_ctx_get_option = stub_get_option,
      ub_ctx_add_ta_autr = (\<lambda>c f. 0),
      ub_ctx_add_ta_file = (\<lambda>c f. 0),
      ub_resolve = stub_resolve\<rparr>"

text \<open>The same engine, except that disabling the debug output fails with status \<open>-3\<close>.\<close>

definition debugout_failing_externs :: externs where
  "debugout_failing_externs = stub_externs\<lparr>ub_ctx_debugout := (\<lambda>c. - 3)\<rparr>"

text \<open>
  The same engine, except for its resolve call, which leaves the two outputs at odds:
  on \<open>fail.test\<close> it reports status \<open>-3\<close> and writes a result all the same, on any
  other name it reports status zero and writes NULL.
\<close>

definition inconsistent_resolve ::
  "ub_ctx option \<Rightarrow> string option \<Rightarrow> c_int \<Rightarrow> c_int \<Rightarrow> c_int \<times> ub_result option"
where
  "inconsistent_resolve c n t k =
     (if n = Some ''fail.test'' then (- 3, Some stub_result) else (0, None))"

definition inconsistent_externs :: externs where
  "inconsistent_externs = stub_externs\<lparr>ub_resolve := inconsistent_resolve\<rparr>"

text \<open>
  Two tasks as the constructor of the worker leaves them: one for the name the fixed
  engine fails on, one for a name it resolves.
\<close>

definition failing_worker :: NodeUnboundWorker where
  "failing_worker =
     NodeUnboundWorker_ctor (Some 1) (Some ''fail.test'') 1 1 (JsFunction 0)"

definition example_worker :: NodeUnboundWorker where
  "example_worker =
     NodeUnboundWorker_ctor (Some 1) (Some ''example.test'') 1 1 (JsFunction 0)"

section \<open>Properties\<close>

subsection \<open>Error strings\<close>

text \<open>
  The operations modelled here surface a nonzero engine status through \<open>nu_strerror\<close>:
  the configuration methods throw an \<open>Error\<close> with that message, \<open>Execute\<close> records it.
\<close>

lemma GetOption_engine_error:
  assumes "ub_ctx_get_option ext (ctx ub) (c_str k) = (err, v)" and "err \<noteq> 0"
  shows "GetOption ext ub [JsString k] tr =
           (Throws (JsError (nu_strerror ext err)),
            tr @ [Call_ub_ctx_get_option (ctx ub) (c_str k)])"
  using assms by (simp add: GetOption_def info_at_def Let_def)

lemma AddTrustAnchorFile_engine_error:
  assumes "ub_ctx_add_ta_file ext (ctx ub) (c_str f) = err" and "err \<noteq> 0"
  shows "AddTrustAnchorFile ext ub this [JsString f, JsBoolean b] tr =
           (Throws (JsError (nu_strerror ext err)),
            tr @ [Call_ub_ctx_add_ta_file (ctx ub) (c_str f)])"
  using assms by (simp add: AddTrustAnchorFile_def info_at_def Let_def)

lemma Execute_engine_error:
  assumes "ub_resolve ext (wctx w) (name w) (rrtype w) (rrclass w) = (err, res)"
      and "err \<noteq> 0"
  shows "errmsg (fst (Execute ext w tr)) = Some (nu_strerror ext err)"
  using assms by (simp add: Execute_def SetErrorMessage_def Let_def)

text \<open>
  C3, as the code has it. The message of a status is \<open>libunbound: \<close> followed by the
  engine's own string when the engine has one of at most 256 characters, and followed
  by \<open>unknown error\<close> when the engine has none or a longer one; with its terminator it
  always fits the static buffer of 12 + 256 + 1 bytes. A longer engine string is
  replaced, not cut.
\<close>

theorem nu_strerror_message:
  "nu_strerror ext err =
     ''libunbound: '' @
       (case ub_strerror ext err of
          Some m \<Rightarrow> if length m \<le> 256 then m else ''unknown error''
        | None \<Rightarrow> ''unknown error'')
   \<and> length (nu_strerror ext err) + 1 \<le> 12 + 256 + 1"
  by (simp add: nu_strerror_def Let_def split: option.split)

text \<open>
  C3, as stated, fails: for an engine string of 257 characters the message is
  \<open>libunbound: unknown error\<close>, and what follows the prefix is no truncation (no initial
  segment) of the engine's string.
\<close>

theorem nu_strerror_truncation_counterexample:
  "ub_strerror stub_externs (- 7) = Some (replicate 257 (CHR ''a''))
   \<and> nu_strerror stub_externs (- 7) = ''libunbound: unknown error''
   \<and> \<not> prefix (drop 12 (nu_strerror stub_externs (- 7))) (replicate 257 (CHR ''a''))"
  by code_simp

subsection \<open>The context handle\<close>

text \<open>
  C8. Destroying a handle releases the native state it holds, by one call of
  \<open>ub_ctx_delete\<close>, and leaves the handle without native state; destroying it again
  changes neither the handle nor the trace, so the state is not released twice.
\<close>

theorem NodeUnbound_dtor_idempotent:
  "NodeUnbound_dtor (fst (NodeUnbound_dtor ub tr)) (snd (NodeUnbound_dtor ub tr))
     = NodeUnbound_dtor ub tr
   \<and> ctx (fst (NodeUnbound_dtor ub tr)) = None
   \<and> snd (NodeUnbound_dtor ub tr)
       = tr @ (case ctx ub of Some c \<Rightarrow> [Call_ub_ctx_delete c] | None \<Rightarrow> [])"
  by (simp add: NodeUnbound_dtor_def split: option.split)

text \<open>
  C5, as the code has it. When the native state has been created and disabling the
  debug output or setting the debug level reports a nonzero status, \<open>New\<close> throws the
  translated message of that status and releases nothing: no \<open>ub_ctx_delete\<close> is among
  the calls it has made, and the handle tied to \<open>this\<close> still holds the native state.
  The state is released, once, when the destructor of that handle runs.
\<close>

theorem New_setup_failure_keeps_state:
  assumes "ub_ctx_create ext = Some c"
      and "ub_ctx_debugout ext c \<noteq> 0 \<or> ub_ctx_debuglevel ext c 0 \<noteq> 0"
  shows "fst (New ext True this tr) =
           Throws (JsError (nu_strerror ext
             (if ub_ctx_debugout ext c \<noteq> 0 then ub_ctx_debugout ext c
              else ub_ctx_debuglevel ext c 0)))
       \<and> fst (snd (New ext True this tr)) = Some \<lparr>ctx = Some c\<rparr>
       \<and> snd (snd (New ext True this tr)) =
           tr @ (if ub_ctx_debugout ext c \<noteq> 0
                 then [Call_ub_ctx_create, Call_ub_ctx_debugout c]
                 else [Call_ub_ctx_create, Call_ub_ctx_debugout c, Call_ub_ctx_debuglevel c 0])
       \<and> Call_ub_ctx_delete c \<notin> set (drop (length tr) (snd (snd (New ext True this tr))))
       \<and> NodeUnbound_dtor \<lparr>ctx = Some c\<rparr> (snd (snd (New ext True this tr))) =
           (\<lparr>ctx = None\<rparr>, snd (snd (New ext True this tr)) @ [Call_ub_ctx_delete c])"
  using assms
  by (auto simp add: New_def NodeUnbound_ctor_def NodeUnbound_dtor_def Let_def)

text \<open>
  The amended C5 at an engine whose \<open>ub_ctx_debugout\<close> fails with status \<open>-3\<close>.
\<close>

theorem New_setup_failure_keeps_state_witness:
  "ub_ctx_create debugout_failing_externs = Some 1
   \<and> ub_ctx_debugout debugout_failing_externs 1 \<noteq> 0
   \<and> fst (New debugout_failing_externs True (JsObject 0) [])
       = Throws (JsError (nu_strerror debugout_failing_externs (- 3)))
   \<and> fst (snd (New debugout_failing_externs True (JsObject 0) [])) = Some \<lparr>ctx = Some 1\<rparr>
   \<and> NodeUnbound_dtor \<lparr>ctx = Some 1\<rparr>
         (snd (snd (New debugout_failing_externs True (JsObject 0) [])))
       = (\<lparr>ctx = None\<rparr>, [Call_ub_ctx_create, Call_ub_ctx_debugout 1, Call_ub_ctx_delete 1])"
proof -
  have a: "ub_ctx_create debugout_failing_externs = Some 1"
    by (simp add: debugout_failing_externs_def stub_externs_def)
  have b: "ub_ctx_debugout debugout_failing_externs 1 = - 3"
    by (simp add: debugout_failing_externs_def stub_externs_def)
  have c: "ub_ctx_debugout debugout_failing_externs 1 \<noteq> 0
           \<or> ub_ctx_debuglevel debugout_failing_externs 1 0 \<noteq> 0"
    by (simp add: debugout_failing_externs_def stub_externs_def)
  show ?thesis
    using New_setup_failure_keeps_state [OF a c, of "JsObject 0" "[]"] a b
    by auto
qed

text \<open>
  C5, as stated, fails: with that engine \<open>New\<close> throws after two engine calls, neither
  of them \<open>ub_ctx_delete\<close>, and the handle still holds the native state at address 1.
\<close>

theorem New_setup_failure_counterexample:
  "New debugout_failing_externs True (JsObject 0) []
     = (Throws (JsError ''libunbound: syntax error''),
        Some \<lparr>ctx = Some 1\<rparr>,
        [Call_ub_ctx_create, Call_ub_ctx_debugout 1])
   \<and> Call_ub_ctx_delete 1 \<notin> set (snd (snd (New debugout_failing_externs True (JsObject 0) [])))"
  by (simp add: New_def debugout_failing_externs_def stub_externs_def NodeUnbound_ctor_def
      nu_strerror_def stub_strerror_def Let_def)

subsection \<open>Configuration methods\<close>

text \<open>
  C10. When \<open>getOption\<close> is called with one string key and the engine reports status
  zero, the call returns \<open>null\<close> and frees nothing if the engine has written a NULL
  value, and otherwise returns the engine's string and then frees the engine's buffer.
\<close>

theorem GetOption_value_or_null:
  assumes "args = [JsString k]"
      and "ub_ctx_get_option ext (ctx ub) (c_str k) = (0, v)"
  shows "GetOption ext ub args tr =
           (case v of
              None \<Rightarrow> (Returns JsNull, tr @ [Call_ub_ctx_get_option (ctx ub) (c_str k)])
            | Some s \<Rightarrow>
                (Returns (JsString s),
                 tr @ [Call_ub_ctx_get_option (ctx ub) (c_str k), Call_free (CharPtr s)]))"
  using assms by (simp add: GetOption_def info_at_def Let_def split: option.split)

text \<open>
  C10 at the fixed engine: the option \<open>verbosity\<close> has the value \<open>1\<close>, the option
  \<open>module-config\<close> has a NULL value.
\<close>

theorem GetOption_value_or_null_witness:
  "GetOption stub_externs \<lparr>ctx = Some 1\<rparr> [JsString ''verbosity''] []
     = (Returns (JsString ''1''),
        [Call_ub_ctx_get_option (Some 1) ''verbosity'', Call_free (CharPtr ''1'')])
   \<and> GetOption stub_externs \<lparr>ctx = Some 1\<rparr> [JsString ''module-config''] []
     = (Returns JsNull, [Call_ub_ctx_get_option (Some 1) ''module-config''])"
proof -
  have a: "ub_ctx_get_option stub_externs (ctx \<lparr>ctx = Some 1\<rparr>) (c_str ''verbosity'')
             = (0, Some ''1'')"
    by (simp add: stub_externs_def stub_get_option_def c_str_def)
  have b: "ub_ctx_get_option stub_externs (ctx \<lparr>ctx = Some 1\<rparr>) (c_str ''module-config'')
             = (0, None)"
    by (simp add: stub_externs_def stub_get_option_def c_str_def)
  have c: "c_str ''verbosity'' = ''verbosity''" "c_str ''module-config'' = ''module-config''"
    by (simp_all add: c_str_def)
  show ?thesis
    using GetOption_value_or_null [OF refl a, of "[]"]
          GetOption_value_or_null [OF refl b, of "[]"] c
    by simp
qed

text \<open>
  Whatever its arguments, \<open>addTrustAnchorFile\<close> makes no engine call or exactly the
  call of \<open>ub_ctx_add_ta_file\<close>: with two arguments \<open>info[2]\<close> is \<open>undefined\<close>, which
  converts to false.
\<close>

lemma AddTrustAnchorFile_never_autr:
  "snd (AddTrustAnchorFile ext ub this args tr) = tr
   \<or> snd (AddTrustAnchorFile ext ub this args tr)
        = tr @ [Call_ub_ctx_add_ta_file (ctx ub) (c_str (Utf8String (info_at args 0)))]"
  by (simp add: AddTrustAnchorFile_def info_at_def Let_def)

text \<open>
  C2 fails on the code. The call \<open>addTrustAnchorFile("root.key", true)\<close> passes
  validation and asks for the autotrust variant, and the code calls \<open>ub_ctx_add_ta_file\<close>.
\<close>

theorem AddTrustAnchorFile_true_uses_file_variant:
  "AddTrustAnchorFile stub_externs \<lparr>ctx = Some 1\<rparr> (JsObject 0)
      [JsString ''root.key'', JsBoolean True] []
     = (Returns (JsObject 0), [Call_ub_ctx_add_ta_file (Some 1) ''root.key''])"
  by (simp add: AddTrustAnchorFile_def info_at_def stub_externs_def c_str_def Let_def)

subsection \<open>Submission\<close>

lemma queued_append: "queued (xs @ ys) = queued xs @ queued ys"
  by (induction xs rule: queued.induct) simp_all

text \<open>
  C1, as the code has it. When the name argument of \<open>resolve\<close> is absent or is not a
  string, the call throws within the call (an \<open>Error\<close> when the number of arguments is
  not four, a \<open>TypeError\<close> otherwise) and does nothing else: the trace is unchanged, so
  no name has been copied, no worker has been queued, and running the queue calls the
  engine no more often than before. The code checks the type of the name only: an empty
  string passes.
\<close>

theorem Resolve_non_string_name:
  assumes "\<not> IsString (info_at args 0)"
  shows "Resolve ext ub this args tr =
           (Throws (if length args \<noteq> 4
                    then JsError ''unbound.resolve() requires arguments.''
                    else JsTypeError ''First argument must be a string.''), tr)
       \<and> queued (snd (Resolve ext ub this args tr)) = queued tr
       \<and> run_all ext (queued (snd (Resolve ext ub this args tr))) tr0
           = run_all ext (queued tr) tr0"
  using assms by (simp add: Resolve_def)

text \<open>The amended C1 at a call whose name argument is the number 5.\<close>

theorem Resolve_non_string_name_witness:
  "\<not> IsString (info_at [JsNumber 5, JsNumber 1, JsNumber 1, JsFunction 0] 0)
   \<and> Resolve stub_externs \<lparr>ctx = Some 1\<rparr> (JsObject 0)
        [JsNumber 5, JsNumber 1, JsNumber 1, JsFunction 0] []
       = (Throws (JsTypeError ''First argument must be a string.''), [])"
proof -
  have a: "\<not> IsString (info_at [JsNumber 5, JsNumber 1, JsNumber 1, JsFunction 0] 0)"
    by (simp add: info_at_def)
  show ?thesis
    using Resolve_non_string_name
            [OF a, of stub_externs "\<lparr>ctx = Some 1\<rparr>" "JsObject 0" "[]" "[]"] a
    by simp
qed

text \<open>
  C1, as stated, fails: \<open>resolve("", 1, 1, f)\<close> returns normally, having copied the empty
  name and queued a worker for it, and the run of that worker calls \<open>ub_resolve\<close> with
  the empty name.
\<close>

theorem Resolve_empty_name_counterexample:
  "Resolve stub_externs \<lparr>ctx = Some 1\<rparr> (JsObject 0)
      [JsString [], JsNumber 1, JsNumber 1, JsFunction 0] []
     = (Returns (JsObject 0),
        [Call_strdup [],
         Call_AsyncQueueWorker
           \<lparr>callback = Some (JsFunction 0), errmsg = None,
            persistent = [(''unbound'', JsObject 0)],
            wctx = Some 1, name = Some [], rrtype = 1, rrclass = 1, result = None\<rparr>])
   \<and> run_all stub_externs
        (queued (snd (Resolve stub_externs \<lparr>ctx = Some 1\<rparr> (JsObject 0)
           [JsString [], JsNumber 1, JsNumber 1, JsFunction 0] []))) []
     = Inr [Call_ub_resolve (Some 1) (Some []) 1 1,
            Call_ub_resolve_free stub_result,
            Call_callback (Some (JsFunction 0))
              [JsNull, JsArray [JsBuffer [0x12, 0x34], JsBoolean True, JsBoolean False, JsNull]],
            Call_free (CharPtr [])]"
  by (simp add: Resolve_def info_at_def stub_externs_def c_str_def strdup_def
      NodeUnboundWorker_ctor_def Let_def run_worker_def Execute_def stub_resolve_def
      WorkComplete_def HandleOKCallback_def CopyBuffer_def stub_result_def
      NodeUnboundWorker_dtor_def)

text \<open>
  C9. When \<open>resolve\<close> is called with a number of arguments other than four, or with a
  name that is not a string, a type or class that is not a number, or a callback that is
  not a function, the call throws one of its five argument errors within the call and
  the trace is unchanged: no name copy, no queued worker, no engine call. And a call
  that has queued a worker has returned normally: no error is thrown after submission.
\<close>

theorem Resolve_argument_errors_before_work:
  "(length args \<noteq> 4 \<or> \<not> IsString (info_at args 0) \<or> \<not> IsNumber (info_at args 1)
      \<or> \<not> IsNumber (info_at args 2) \<or> \<not> IsFunction (info_at args 3)
    \<longrightarrow> fst (Resolve ext ub this args tr) \<in>
          {Throws (JsError ''unbound.resolve() requires arguments.''),
           Throws (JsTypeError ''First argument must be a string.''),
           Throws (JsTypeError ''Second argument must be a number.''),
           Throws (JsTypeError ''Third argument must be a number.''),
           Throws (JsTypeError ''Fourth argument must be a function.'')}
        \<and> snd (Resolve ext ub this args tr) = tr)
   \<and> (queued (snd (Resolve ext ub this args tr)) \<noteq> queued tr
      \<longrightarrow> fst (Resolve ext ub this args tr) = Returns this)"
  by (auto simp add: Resolve_def Let_def queued_append split: option.splits)

text \<open>
  C9 at a call with two arguments, which throws and leaves the trace empty, and at a
  well-formed call, which queues a worker and returns.
\<close>

theorem Resolve_argument_errors_before_work_witness:
  "length [JsString ''example.test'', JsNumber 1] \<noteq> 4
   \<and> Resolve stub_externs \<lparr>ctx = Some 1\<rparr> (JsObject 0)
        [JsString ''example.test'', JsNumber 1] []
       = (Throws (JsError ''unbound.resolve() requires arguments.''), [])
   \<and> queued (snd (Resolve stub_externs \<lparr>ctx = Some 1\<rparr> (JsObject 0)
         [JsString ''example.test'', JsNumber 1, JsNumber 1, JsFunction 0] [])) \<noteq> queued []
   \<and> fst (Resolve stub_externs \<lparr>ctx = Some 1\<rparr> (JsObject 0)
         [JsString ''example.test'', JsNumber 1, JsNumber 1, JsFunction 0] [])
       = Returns (JsObject 0)"
  using Resolve_argument_errors_before_work
          [of "[JsString ''example.test'', JsNumber 1]" stub_externs "\<lparr>ctx = Some 1\<rparr>"
              "JsObject 0" "[]"]
        Resolve_argument_errors_before_work
          [of "[JsString ''example.test'', JsNumber 1, JsNumber 1, JsFunction 0]" stub_externs
              "\<lparr>ctx = Some 1\<rparr>" "JsObject 0" "[]"]
  by (simp add: Resolve_def info_at_def stub_externs_def c_str_def strdup_def
      NodeUnboundWorker_ctor_def Let_def)

subsection \<open>The worker\<close>

text \<open>What \<open>Execute\<close> leaves, given what the engine's resolve call returns.\<close>

lemma Execute_eq:
  assumes "ub_resolve ext (wctx w) (name w) (rrtype w) (rrclass w) = (err, res)"
  shows "Execute ext w tr =
           (if err \<noteq> 0 then w\<lparr>result := res, errmsg := Some (nu_strerror ext err)\<rparr>
            else w\<lparr>result := res\<rparr>,
            tr @ [Call_ub_resolve (wctx w) (name w) (rrtype w) (rrclass w)])"
  using assms by (simp add: Execute_def SetErrorMessage_def Let_def)

text \<open>The failure path of a task, whatever the engine has left in the result.\<close>

lemma run_worker_failure:
  assumes "ub_resolve ext (wctx w) (name w) (rrtype w) (rrclass w) = (err, res)"
      and "err \<noteq> 0"
  shows "run_worker ext w tr =
           Inr (w\<lparr>errmsg := Some (nu_strerror ext err), callback := None,
                  name := None, result := None\<rparr>,
                tr @ [Call_ub_resolve (wctx w) (name w) (rrtype w) (rrclass w),
                      Call_callback (callback w) [JsError (nu_strerror ext err)]]
                   @ (case name w of Some n \<Rightarrow> [Call_free (CharPtr n)] | None \<Rightarrow> [])
                   @ (case res of Some r \<Rightarrow> [Call_ub_resolve_free r] | None \<Rightarrow> []))"
  using assms
  by (simp add: run_worker_def Execute_eq WorkComplete_def HandleErrorCallback_def
      NodeUnboundWorker_dtor_def split: option.split)

text \<open>The delivery of an answer from a worker that holds a result and no error.\<close>

lemma WorkComplete_success:
  assumes "errmsg w = None" and "result w = Some r"
      and "0 \<le> sint (answer_len r)"
      and "sint (answer_len r) \<le> int (length (answer_packet r))"
  shows "WorkComplete w tr =
           Inr (w\<lparr>result := None, callback := None\<rparr>,
                tr @ [Call_ub_resolve_free r,
                      Call_callback (callback w)
                        [JsNull,
                         JsArray
                           [JsBuffer (take (nat (sint (answer_len r))) (answer_packet r)),
                            JsBoolean (secure r \<noteq> 0),
                            JsBoolean (bogus r \<noteq> 0),
                            (case why_bogus r of
                               Some why \<Rightarrow> if bogus r \<noteq> 0 then JsString why else JsNull
                             | None \<Rightarrow> JsNull)]]])"
  using assms
  by (simp add: WorkComplete_def HandleOKCallback_def CopyBuffer_def Let_def
      split: option.split)

text \<open>The success path of a task.\<close>

lemma run_worker_success:
  assumes "ub_resolve ext (wctx w) (name w) (rrtype w) (rrclass w) = (0, Some r)"
      and "errmsg w = None"
      and "0 \<le> sint (answer_len r)"
      and "sint (answer_len r) \<le> int (length (answer_packet r))"
  shows "\<exists>argv. run_worker ext w tr =
           Inr (w\<lparr>result := None, callback := None, name := None\<rparr>,
                tr @ [Call_ub_resolve (wctx w) (name w) (rrtype w) (rrclass w),
                      Call_ub_resolve_free r,
                      Call_callback (callback w) argv]
                   @ (case name w of Some n \<Rightarrow> [Call_free (CharPtr n)] | None \<Rightarrow> []))"
  using assms
  by (simp add: run_worker_def Execute_eq WorkComplete_success NodeUnboundWorker_dtor_def
      split: option.split)

lemma stub_resolve_fail:
  "ub_resolve stub_externs (wctx failing_worker) (name failing_worker) (rrtype failing_worker)
     (rrclass failing_worker) = (- 3, None)"
  by (simp add: stub_externs_def stub_resolve_def failing_worker_def NodeUnboundWorker_ctor_def)

lemma stub_resolve_example:
  "ub_resolve stub_externs (wctx example_worker) (name example_worker) (rrtype example_worker)
     (rrclass example_worker) = (0, Some stub_result)"
  by (simp add: stub_externs_def stub_resolve_def example_worker_def NodeUnboundWorker_ctor_def)

lemma stub_workers_fresh:
  "errmsg failing_worker = None" "name failing_worker = Some ''fail.test''"
  "errmsg example_worker = None" "name example_worker = Some ''example.test''"
  by (simp_all add: failing_worker_def example_worker_def NodeUnboundWorker_ctor_def)

lemma stub_result_readable:
  "0 \<le> sint (answer_len stub_result)"
  "sint (answer_len stub_result) \<le> int (length (answer_packet stub_result))"
  by (simp_all add: stub_result_def)

text \<open>
  C6, as the code has it. Take a task that has no failure recorded. Once \<open>Execute\<close> has
  run, the failure slot holds the translated message of the status when the status is
  not zero and is empty when it is zero; the result slot holds whatever the engine wrote
  through the out parameter, and \<open>Execute\<close> neither clears nor sets it. So exactly one of
  the two slots is populated if and only if the engine wrote a result exactly when it
  reported status zero.
\<close>

theorem Execute_slots:
  assumes "ub_resolve ext (wctx w) (name w) (rrtype w) (rrclass w) = (err, res)"
      and "errmsg w = None"
  shows "errmsg (fst (Execute ext w tr)) = (if err = 0 then None else Some (nu_strerror ext err))
       \<and> result (fst (Execute ext w tr)) = res
       \<and> ((errmsg (fst (Execute ext w tr)) = None) = (result (fst (Execute ext w tr)) \<noteq> None))
           = ((err = 0) = (res \<noteq> None))"
  using assms by (auto simp add: Execute_eq)

text \<open>
  The amended C6 at the fixed engine: the failing task ends with a failure and no
  result, the other task with a result and no failure.
\<close>

theorem Execute_slots_witness:
  "errmsg failing_worker = None
   \<and> errmsg (fst (Execute stub_externs failing_worker [])) = Some ''libunbound: syntax error''
   \<and> result (fst (Execute stub_externs failing_worker [])) = None
   \<and> errmsg example_worker = None
   \<and> errmsg (fst (Execute stub_externs example_worker [])) = None
   \<and> result (fst (Execute stub_externs example_worker [])) = Some stub_result"
proof -
  have m: "nu_strerror stub_externs (- 3) = ''libunbound: syntax error''"
    by (simp add: nu_strerror_def stub_externs_def stub_strerror_def)
  show ?thesis
    using Execute_slots [OF stub_resolve_fail stub_workers_fresh(1), of "[]"]
          Execute_slots [OF stub_resolve_example stub_workers_fresh(3), of "[]"]
          m stub_workers_fresh(1) stub_workers_fresh(3)
    by simp
qed

text \<open>
  C6, as stated, fails. With an engine that reports status \<open>-3\<close> and writes a result,
  \<open>Execute\<close> leaves both slots populated; with an engine that reports status zero and
  writes NULL, it leaves neither populated.
\<close>

theorem Execute_exactly_one_counterexample:
  "ub_resolve inconsistent_externs (wctx failing_worker) (name failing_worker)
       (rrtype failing_worker) (rrclass failing_worker) = (- 3, Some stub_result)
   \<and> errmsg (fst (Execute inconsistent_externs failing_worker []))
       = Some ''libunbound: syntax error''
   \<and> result (fst (Execute inconsistent_externs failing_worker [])) = Some stub_result
   \<and> ub_resolve inconsistent_externs (wctx example_worker) (name example_worker)
       (rrtype example_worker) (rrclass example_worker) = (0, None)
   \<and> errmsg (fst (Execute inconsistent_externs example_worker [])) = None
   \<and> result (fst (Execute inconsistent_externs example_worker [])) = None"
  by (simp add: Execute_def SetErrorMessage_def inconsistent_externs_def
      inconsistent_resolve_def stub_externs_def failing_worker_def example_worker_def
      NodeUnboundWorker_ctor_def nu_strerror_def stub_strerror_def Let_def)

text \<open>
  C4. Take a task that has no failure recorded and whose resolve call returns status
  zero with a result whose \<open>answer_len\<close> bytes at \<open>answer_packet\<close> are readable. Then
  \<open>Execute\<close> followed by the completion makes one callback call, with \<open>null\<close> and the
  answer: a buffer with a copy of the first \<open>answer_len\<close> bytes of the packet, the
  engine's secure flag, the engine's bogus flag, and the engine's diagnostic string when
  bogus is set and the string is not NULL, \<open>null\<close> otherwise. The two flags are the
  engine's own, so both are true in the answer only if both are set in the result.
\<close>

theorem delivered_answer:
  assumes "ub_resolve ext (wctx w) (name w) (rrtype w) (rrclass w) = (0, Some r)"
      and "errmsg w = None"
      and "0 \<le> sint (answer_len r)"
      and "sint (answer_len r) \<le> int (length (answer_packet r))"
  shows "WorkComplete (fst (Execute ext w tr)) (snd (Execute ext w tr)) =
           Inr (w\<lparr>result := None, callback := None\<rparr>,
                tr @ [Call_ub_resolve (wctx w) (name w) (rrtype w) (rrclass w),
                      Call_ub_resolve_free r,
                      Call_callback (callback w)
                        [JsNull,
                         JsArray
                           [JsBuffer (take (nat (sint (answer_len r))) (answer_packet r)),
                            JsBoolean (secure r \<noteq> 0),
                            JsBoolean (bogus r \<noteq> 0),
                            (case why_bogus r of
                               Some why \<Rightarrow> if bogus r \<noteq> 0 then JsString why else JsNull
                             | None \<Rightarrow> JsNull)]]])"
  using assms by (simp add: Execute_eq WorkComplete_success)

text \<open>
  C4 at the fixed engine: the two bytes of the stub's packet, secure, not bogus, no
  reason.
\<close>

theorem delivered_answer_witness:
  "WorkComplete (fst (Execute stub_externs example_worker []))
                (snd (Execute stub_externs example_worker []))
     = Inr (example_worker\<lparr>result := None, callback := None\<rparr>,
            [Call_ub_resolve (Some 1) (Some ''example.test'') 1 1,
             Call_ub_resolve_free stub_result,
             Call_callback (Some (JsFunction 0))
               [JsNull,
                JsArray [JsBuffer [0x12, 0x34], JsBoolean True, JsBoolean False, JsNull]]])"
proof -
  have f: "wctx example_worker = Some 1" "name example_worker = Some ''example.test''"
    "rrtype example_worker = 1" "rrclass example_worker = 1"
    "callback example_worker = Some (JsFunction 0)"
    by (simp_all add: example_worker_def NodeUnboundWorker_ctor_def)
  show ?thesis
    using delivered_answer
            [OF stub_resolve_example stub_workers_fresh(3) stub_result_readable, of "[]"]
    by (simp add: f stub_result_def)
qed

text \<open>
  C7. Take a task that owns the name copy \<open>n\<close> and has no failure recorded, and let its
  resolve call fail, or succeed with a result whose packet is readable. Then the task
  runs to its end, and among the calls of that run the name copy is freed exactly once,
  the result the engine wrote (if any) is released exactly once, by \<open>ub_resolve_free\<close>,
  no other result is released, and no result is ever passed to the generic \<open>free\<close>.
  The destroyed worker holds neither the name nor a result.
\<close>

theorem run_worker_releases_once:
  assumes "ub_resolve ext (wctx w) (name w) (rrtype w) (rrclass w) = (err, res)"
      and "errmsg w = None"
      and "name w = Some n"
      and "err \<noteq> 0 \<or> (\<exists>r. res = Some r \<and> 0 \<le> sint (answer_len r)
                            \<and> sint (answer_len r) \<le> int (length (answer_packet r)))"
  shows "\<exists>w' ev. run_worker ext w tr = Inr (w', tr @ ev)
          \<and> name w' = None \<and> result w' = None
          \<and> count_list ev (Call_free (CharPtr n)) = 1
          \<and> (\<forall>r. count_list ev (Call_ub_resolve_free r) = (if res = Some r then 1 else 0))
          \<and> (\<forall>r. Call_free (ResultPtr r) \<notin> set ev)"
proof (cases "err = 0")
  case False
  show ?thesis
    using run_worker_failure [OF assms(1) False, of tr] assms(3)
    by (auto split: option.split)
next
  case True
  with assms(4) obtain r where r: "res = Some r" "0 \<le> sint (answer_len r)"
      "sint (answer_len r) \<le> int (length (answer_packet r))"
    by auto
  from assms(1) True r(1)
  have "ub_resolve ext (wctx w) (name w) (rrtype w) (rrclass w) = (0, Some r)"
    by simp
  from run_worker_success [OF this assms(2) r(2) r(3), of tr] assms(3) r(1)
  show ?thesis
    by auto
qed

text \<open>
  C7 at the fixed engine, on the failure path (status \<open>-3\<close>, no result) and on the
  success path.
\<close>

theorem run_worker_releases_once_witness:
  "(\<exists>w' ev. run_worker stub_externs failing_worker [] = Inr (w', ev)
      \<and> name w' = None \<and> result w' = None
      \<and> count_list ev (Call_free (CharPtr ''fail.test'')) = 1
      \<and> (\<forall>r. count_list ev (Call_ub_resolve_free r) = 0))
   \<and> (\<exists>w' ev. run_worker stub_externs example_worker [] = Inr (w', ev)
      \<and> name w' = None \<and> result w' = None
      \<and> count_list ev (Call_free (CharPtr ''example.test'')) = 1
      \<and> count_list ev (Call_ub_resolve_free stub_result) = 1)"
proof -
  have h1: "(- 3 :: c_int) \<noteq> 0
           \<or> (\<exists>r. (None :: ub_result option) = Some r \<and> 0 \<le> sint (answer_len r)
                  \<and> sint (answer_len r) \<le> int (length (answer_packet r)))"
    by simp
  have h2: "(0 :: c_int) \<noteq> 0
           \<or> (\<exists>r. Some stub_result = Some r \<and> 0 \<le> sint (answer_len r)
                  \<and> sint (answer_len r) \<le> int (length (answer_packet r)))"
    using stub_result_readable by simp
  show ?thesis
    using run_worker_releases_once
            [OF stub_resolve_fail stub_workers_fresh(1) stub_workers_fresh(2) h1, of "[]"]
          run_worker_releases_once
            [OF stub_resolve_example stub_workers_fresh(3) stub_workers_fresh(4) h2, of "[]"]
    by auto
qed

end
